theory Spec2Isabelle
  imports Main "HOL-Library.Sublist"
begin

section \<open>Data model of \<open>app/agent.py\<close>\<close>

text \<open>
  Python values that occur inside a tool call: the entries of the dictionary that
  LangChain attaches to an agent message (\<open>name\<close>, \<open>args\<close>, \<open>id\<close>, ...).
  A dictionary is an association list read with \<open>map_of\<close>.
\<close>

datatype pyval =
    PStr string
  | PInt int
  | PNone
  | PDict "(string \<times> pyval) list"

type_synonym tool_call = "(string \<times> pyval) list"

text \<open>
  The \<open>content\<close> attribute of a LangChain message is either a \<open>str\<close> or a list of
  content blocks. Only the distinction between the two, and emptiness, is observed by
  the code.
\<close>

datatype msg_content =
    Str string
  | Blocks "pyval list"

text \<open>
  The message classes the code distinguishes with \<open>isinstance\<close>. \<open>AIMessage\<close> carries
  its \<open>tool_calls\<close> list (empty when the model called no tool), \<open>ToolMessage\<close> the name
  of the tool that produced it.
\<close>

datatype message =
    HumanMessage msg_content
  | AIMessage msg_content "tool_call list"
  | ToolMessage msg_content string
  | SystemMessage msg_content

text \<open>
  A graph state is a dictionary; the only key the code reads is \<open>"messages"\<close>.
  \<open>None\<close> stands for a state dictionary without that key.
\<close>

type_synonym state_values = "message list option"

text \<open>The dictionaries yielded by \<open>stream\<close> and returned by \<open>get_agent_response\<close>.\<close>

record progress_event =
  is_task_complete :: bool
  require_user_input :: bool
  content :: string

datatype py_error = KeyError | IndexError

section \<open>Strings\<close>

text \<open>
  A Python \<open>str\<close> is held as a \<open>string\<close>, text outside ASCII as the bytes of its UTF-8
  encoding. \<open>lower\<close> is \<open>str.lower\<close> on the letters \<open>A\<close> to \<open>Z\<close>; every other byte is left
  as it is, so the capital letters outside ASCII, which Python lowers too, keep their
  bytes here. The five phrases the classifier looks for are lower-case ASCII.
\<close>

definition lower_char :: "char \<Rightarrow> char" where
  "lower_char c =
     (let n = (of_char c :: nat) in if 65 \<le> n \<and> n \<le> 90 then char_of (n + 32) else c)"

definition lower :: "string \<Rightarrow> string" where
  "lower s = map lower_char s"

text \<open>Python's \<open>k in s\<close> on strings: \<open>k\<close> occurs in \<open>s\<close> as a contiguous substring.\<close>

fun starts_with :: "string \<Rightarrow> string \<Rightarrow> bool" where
  "starts_with [] s = True"
| "starts_with (k # ks) [] = False"
| "starts_with (k # ks) (c # cs) = (k = c \<and> starts_with ks cs)"

fun str_in :: "string \<Rightarrow> string \<Rightarrow> bool" where
  "str_in k [] = (k = [])"
| "str_in k (c # cs) = (starts_with k (c # cs) \<or> str_in k cs)"

section \<open>The completion classifier: \<open>get_agent_response\<close>\<close>

definition input_keywords :: "string list" where
  "input_keywords = [''need more'', ''please provide'', ''please specify'', ''which'', ''clarify'']"

definition fallback_text :: string where
  "fallback_text = ''We are unable to process your request at the moment. Please try again.''"

definition fallback :: progress_event where
  "fallback = \<lparr>is_task_complete = False, require_user_input = True, content = fallback_text\<rparr>"

text \<open>\<open>current_state.values.get("messages", [])\<close>\<close>

definition get_messages :: "state_values \<Rightarrow> message list" where
  "get_messages vs = (case vs of None \<Rightarrow> [] | Some ms \<Rightarrow> ms)"

text \<open>Truthiness of a message's \<open>content\<close>: a non-empty string or a non-empty list.\<close>

fun truthy :: "msg_content \<Rightarrow> bool" where
  "truthy (Str s) = (s \<noteq> [])"
| "truthy (Blocks bs) = (bs \<noteq> [])"

text \<open>The body of the innermost \<open>if isinstance(content, str)\<close> of the source.\<close>

definition classify_text :: "string \<Rightarrow> progress_event" where
  "classify_text c =
     (let content_lower = lower c in
      if list_ex (\<lambda>keyword. str_in keyword content_lower) input_keywords
      then \<lparr>is_task_complete = False, require_user_input = True, content = c\<rparr>
      else \<lparr>is_task_complete = True, require_user_input = False, content = c\<rparr>)"

fun classify_last :: "message \<Rightarrow> progress_event" where
  "classify_last (AIMessage c tcs) =
     (if truthy c then (case c of Str s \<Rightarrow> classify_text s | Blocks bs \<Rightarrow> fallback)
      else fallback)"
| "classify_last m = fallback"

definition get_agent_response :: "state_values \<Rightarrow> progress_event" where
  "get_agent_response current_state =
     (let messages = get_messages current_state in
      if messages \<noteq> [] then classify_last (last messages) else fallback)"

section \<open>The tool \<open>get_greeting\<close>\<close>

text \<open>
  \<open>f"Hello {name}! Nice to meet you! <waving hand>"\<close>; the emoji U+1F44B is written as the
  four bytes of its UTF-8 encoding. The argument is optional: \<open>None\<close> is a call without
  it, which takes the default \<open>"friend"\<close>.
\<close>

definition waving_hand :: string where
  "waving_hand = [CHR 0xF0, CHR 0x9F, CHR 0x91, CHR 0x8B]"

definition get_greeting :: "string option \<Rightarrow> string" where
  "get_greeting arg =
     (let name = (case arg of None \<Rightarrow> ''friend'' | Some n \<Rightarrow> n)
      in ''Hello '' @ name @ ''! Nice to meet you! '' @ waving_hand)"

section \<open>The progress streamer: \<open>stream\<close>\<close>

text \<open>\<open>d.get(k, default)\<close> on a dictionary.\<close>

definition dict_get :: "(string \<times> pyval) list \<Rightarrow> string \<Rightarrow> pyval \<Rightarrow> pyval" where
  "dict_get d k dflt = (case map_of d k of None \<Rightarrow> dflt | Some v \<Rightarrow> v)"

definition progress :: "string \<Rightarrow> progress_event" where
  "progress text = \<lparr>is_task_complete = False, require_user_input = False, content = text\<rparr>"

text \<open>
  The body of the \<open>for\<close> loop, applied to \<open>message = item["messages"][-1]\<close>: the list of
  the events it yields for that step (none or one).
\<close>

fun stream_step :: "message \<Rightarrow> progress_event list" where
  "stream_step (AIMessage c tool_calls) =
     (if tool_calls \<noteq> [] \<and> length tool_calls > 0 then
        (let tool_name = dict_get (tool_calls ! 0) ''name'' (PStr ''tool'') in
         if tool_name = PStr ''calculator'' then [progress ''Performing calculation...'']
         else if tool_name = PStr ''get_greeting'' then [progress ''Preparing greeting...'']
         else [])
      else [])"
| "stream_step (ToolMessage c n) = [progress ''Processing result...'']"
| "stream_step m = []"

text \<open>
  The \<open>for\<close> loop over what \<open>self.graph.stream(inputs, config, stream_mode="values")\<close>
  produces: one state dictionary per step. The result is the list of events yielded so far
  and, when the loop raised, the error: \<open>item["messages"]\<close> raises \<open>KeyError\<close> on a
  dictionary without that key, \<open>[-1]\<close> raises \<open>IndexError\<close> on an empty list.
\<close>

fun stream_loop :: "state_values list \<Rightarrow> progress_event list \<times> py_error option" where
  "stream_loop [] = ([], None)"
| "stream_loop (item # items) =
     (case item of
        None \<Rightarrow> ([], Some KeyError)
      | Some messages \<Rightarrow>
          if messages = [] then ([], Some IndexError)
          else (case stream_loop items of
                  (evs, err) \<Rightarrow> (stream_step (last messages) @ evs, err)))"

text \<open>
  \<open>stream\<close>: the loop, then \<open>yield self.get_agent_response(config)\<close>. The graph is the
  LangGraph prebuilt agent, which is not part of this repository; its two answers are
  the arguments: \<open>trace\<close>, the states it streams for the query, and \<open>current_state\<close>,
  what \<open>get_state(config).values\<close> holds afterwards.
\<close>

definition stream :: "state_values list \<Rightarrow> state_values \<Rightarrow> progress_event list \<times> py_error option" where
  "stream trace current_state =
     (case stream_loop trace of
        (evs, Some e) \<Rightarrow> (evs, Some e)
      | (evs, None) \<Rightarrow> (evs @ [get_agent_response current_state], None))"

section \<open>Task status\<close>

text \<open>The three values of \<open>ResponseFormat.status\<close>.\<close>

datatype task_status = input_required | completed | error

text \<open>
  The code that turns a terminal record into a task status (\<open>app/agent_executor.py\<close>) is
  not among the sources. \<open>status_by_flags\<close> is one assignment that reads the two flags:
  it serves as an instance of the assignments the theorem on the classifier's record
  shapes ranges over.
\<close>

definition status_by_flags :: "progress_event \<Rightarrow> task_status" where
  "status_by_flags e =
     (if is_task_complete e then completed
      else if require_user_input e then input_required
      else error)"

section \<open>Substring search\<close>

text \<open>
  The two string functions compute the library's \<open>prefix\<close> and \<open>sublist\<close>: \<open>str_in k s\<close>
  holds exactly when \<open>s\<close> is some text, then \<open>k\<close>, then some text.
\<close>

lemma starts_with_prefix: "starts_with k s = prefix k s"
  by (induction k s rule: starts_with.induct) simp_all

lemma str_in_sublist: "str_in k s = sublist k s"
  by (induction s) (simp_all add: starts_with_prefix sublist_Cons_right)

lemma str_in_iff: "str_in k s \<longleftrightarrow> (\<exists>before after. s = before @ k @ after)"
  by (simp add: str_in_sublist sublist_def)

lemma has_keyword_iff:
  "list_ex (\<lambda>keyword. str_in keyword s) input_keywords \<longleftrightarrow>
     sublist ''need more'' s \<or> sublist ''please provide'' s \<or> sublist ''please specify'' s \<or>
     sublist ''which'' s \<or> sublist ''clarify'' s"
  by (simp add: input_keywords_def str_in_sublist)

section \<open>Properties of the completion classifier\<close>

lemma classify_text_flags:
  "is_task_complete (classify_text c) = (\<not> require_user_input (classify_text c))"
  by (simp add: classify_text_def Let_def)

lemma classify_last_flags:
  "is_task_complete (classify_last m) = (\<not> require_user_input (classify_last m))"
  by (cases m) (simp_all add: fallback_def classify_text_flags split: msg_content.split)

lemma get_agent_response_flags:
  "is_task_complete (get_agent_response st) = (\<not> require_user_input (get_agent_response st))"
  by (simp add: get_agent_response_def Let_def fallback_def classify_last_flags)

text \<open>
  C5. Whatever the session state, the record returned by \<open>get_agent_response\<close> has
  exactly one of \<open>is_task_complete\<close> and \<open>require_user_input\<close> set: the two flags always
  differ, so they are never both true (and never both false).
\<close>

theorem get_agent_response_one_flag:
  "is_task_complete (get_agent_response st) \<noteq> require_user_input (get_agent_response st)"
  using get_agent_response_flags [of st] by simp

text \<open>
  C4. When the session's message list is empty, or its last message is not an
  \<open>AIMessage\<close> whose content is a non-empty string, \<open>get_agent_response\<close> returns the
  fallback record: not complete, user input required, and the fixed apology text.
\<close>

theorem get_agent_response_fallback:
  assumes "get_messages st = [] \<or>
           \<not> (\<exists>s tcs. last (get_messages st) = AIMessage (Str s) tcs \<and> s \<noteq> [])"
  shows "get_agent_response st =
    \<lparr>is_task_complete = False, require_user_input = True,
     content = ''We are unable to process your request at the moment. Please try again.''\<rparr>"
proof (cases "get_messages st = []")
  case True
  then show ?thesis by (simp add: get_agent_response_def fallback_def fallback_text_def)
next
  case False
  with assms have no: "\<And>s tcs. last (get_messages st) = AIMessage (Str s) tcs \<Longrightarrow> s = []"
    by blast
  have "classify_last (last (get_messages st)) = fallback"
  proof (cases "last (get_messages st)")
    case (AIMessage c tcs)
    then show ?thesis using no by (cases c) auto
  qed simp_all
  with False show ?thesis
    by (simp add: get_agent_response_def fallback_def fallback_text_def)
qed

text \<open>
  Instances of C4: no \<open>messages\<close> key, an empty list, a user message last, a tool result
  last, an agent message with empty text (the usual companion of a tool call), and an
  agent message whose content is a list of blocks.
\<close>

theorem get_agent_response_fallback_witness:
  "get_agent_response None = fallback
   \<and> get_agent_response (Some []) = fallback
   \<and> get_agent_response (Some [HumanMessage (Str ''Divide 144 by 0'')]) = fallback
   \<and> get_agent_response
       (Some [HumanMessage (Str ''hi''), ToolMessage (Str ''42.0'') ''calculator'']) = fallback
   \<and> get_agent_response
       (Some [AIMessage (Str []) [[(''name'', PStr ''calculator'')]]]) = fallback
   \<and> get_agent_response (Some [AIMessage (Blocks [PStr ''which'']) []]) = fallback"
  using get_agent_response_fallback [of None]
    get_agent_response_fallback [of "Some []"]
    get_agent_response_fallback [of "Some [HumanMessage (Str ''Divide 144 by 0'')]"]
    get_agent_response_fallback
      [of "Some [HumanMessage (Str ''hi''), ToolMessage (Str ''42.0'') ''calculator'']"]
    get_agent_response_fallback
      [of "Some [AIMessage (Str []) [[(''name'', PStr ''calculator'')]]]"]
    get_agent_response_fallback [of "Some [AIMessage (Blocks [PStr ''which'']) []]"]
  by (simp add: get_messages_def fallback_def fallback_text_def)

text \<open>
  C1, as amended. When the last message of the session is an \<open>AIMessage\<close> whose content
  is a non-empty string \<open>c\<close>: if the lowercased \<open>c\<close> contains one of "need more",
  "please provide", "please specify", "which", "clarify", the classifier returns
  \<open>c\<close> with \<open>require_user_input\<close> set; if it contains none of them, it returns \<open>c\<close> with
  \<open>is_task_complete\<close> set.
\<close>

theorem get_agent_response_nonempty_text:
  assumes "get_messages st \<noteq> []"
    and "last (get_messages st) = AIMessage (Str c) tcs"
    and "c \<noteq> []"
  shows "get_agent_response st =
     (if sublist ''need more'' (lower c) \<or> sublist ''please provide'' (lower c) \<or>
         sublist ''please specify'' (lower c) \<or> sublist ''which'' (lower c) \<or>
         sublist ''clarify'' (lower c)
      then \<lparr>is_task_complete = False, require_user_input = True, content = c\<rparr>
      else \<lparr>is_task_complete = True, require_user_input = False, content = c\<rparr>)"
  using assms by (simp add: get_agent_response_def classify_text_def Let_def has_keyword_iff)

text \<open>
  Instances of the amended C1: an answer that asks "Which ...?" and an answer that
  states a result.
\<close>

theorem get_agent_response_nonempty_text_witness:
  "get_agent_response
     (Some [HumanMessage (Str ''Add them''), AIMessage (Str ''Which numbers should I add?'') []])
     = \<lparr>is_task_complete = False, require_user_input = True,
        content = ''Which numbers should I add?''\<rparr>
   \<and> get_agent_response
     (Some [HumanMessage (Str ''What is 25 plus 17?''), AIMessage (Str ''25 plus 17 is 42.0'') []])
     = \<lparr>is_task_complete = True, require_user_input = False, content = ''25 plus 17 is 42.0''\<rparr>"
proof -
  have k1: "sublist ''which'' (lower ''Which numbers should I add?'')"
    by code_simp
  have k2: "\<not> sublist ''need more'' (lower ''25 plus 17 is 42.0'')"
    "\<not> sublist ''please provide'' (lower ''25 plus 17 is 42.0'')"
    "\<not> sublist ''please specify'' (lower ''25 plus 17 is 42.0'')"
    "\<not> sublist ''which'' (lower ''25 plus 17 is 42.0'')"
    "\<not> sublist ''clarify'' (lower ''25 plus 17 is 42.0'')"
    by code_simp+
  show ?thesis
    using k1 k2
      get_agent_response_nonempty_text
        [of "Some [HumanMessage (Str ''Add them''),
                   AIMessage (Str ''Which numbers should I add?'') []]"
            "''Which numbers should I add?''" "[]"]
      get_agent_response_nonempty_text
        [of "Some [HumanMessage (Str ''What is 25 plus 17?''),
                   AIMessage (Str ''25 plus 17 is 42.0'') []]"
            "''25 plus 17 is 42.0''" "[]"]
    by (simp add: get_messages_def)
qed

text \<open>
  C1 as stated fails for an agent message whose string content is empty: the lowercased
  content contains none of the five phrases, yet the classifier does not return the
  completed record with that content; it returns the fallback record.
\<close>

theorem get_agent_response_empty_text_counterexample:
  "\<not> sublist ''need more'' (lower [])
   \<and> \<not> sublist ''please provide'' (lower [])
   \<and> \<not> sublist ''please specify'' (lower [])
   \<and> \<not> sublist ''which'' (lower [])
   \<and> \<not> sublist ''clarify'' (lower [])
   \<and> get_agent_response (Some [HumanMessage (Str ''hi''), AIMessage (Str []) []])
       \<noteq> \<lparr>is_task_complete = True, require_user_input = False, content = []\<rparr>
   \<and> get_agent_response (Some [HumanMessage (Str ''hi''), AIMessage (Str []) []])
       = \<lparr>is_task_complete = False, require_user_input = True,
          content = ''We are unable to process your request at the moment. Please try again.''\<rparr>"
  by (simp add: lower_def get_agent_response_def get_messages_def fallback_def fallback_text_def)

section \<open>Properties of the progress streamer\<close>

lemma stream_step_flags:
  "e \<in> set (stream_step m) \<Longrightarrow> \<not> is_task_complete e \<and> \<not> require_user_input e"
  by (cases m) (auto simp: progress_def Let_def split: if_splits)

lemma stream_loop_Cons:
  "msgs \<noteq> [] \<Longrightarrow>
   stream_loop (Some msgs # items) =
     (stream_step (last msgs) @ fst (stream_loop items), snd (stream_loop items))"
  by (simp split: prod.split)

lemma stream_loop_flags:
  "e \<in> set (fst (stream_loop trace)) \<Longrightarrow> \<not> is_task_complete e \<and> \<not> require_user_input e"
proof (induction trace)
  case Nil
  then show ?case by simp
next
  case (Cons item items)
  show ?case
  proof (cases item)
    case None
    with Cons.prems show ?thesis by simp
  next
    case (Some msgs)
    show ?thesis
    proof (cases "msgs = []")
      case True
      with Some Cons.prems show ?thesis by simp
    next
      case False
      with Some Cons.prems
      have "e \<in> set (stream_step (last msgs)) \<or> e \<in> set (fst (stream_loop items))"
        by (auto split: prod.splits)
      then show ?thesis using Cons.IH stream_step_flags by blast
    qed
  qed
qed

lemma stream_loop_no_error:
  "\<forall>item \<in> set trace. \<exists>msgs. item = Some msgs \<and> msgs \<noteq> [] \<Longrightarrow> snd (stream_loop trace) = None"
proof (induction trace)
  case Nil
  then show ?case by simp
next
  case (Cons item items)
  then obtain msgs where "item = Some msgs" "msgs \<noteq> []" by auto
  with Cons show ?case by (auto split: prod.splits)
qed

text \<open>
  C6. A step whose last message is an \<open>AIMessage\<close> whose first tool call is named
  \<open>calculator\<close> adds exactly the event "Performing calculation..." to the sequence; one
  whose first tool call is named \<open>get_greeting\<close> adds exactly "Preparing greeting...";
  a step whose last message is a \<open>ToolMessage\<close> adds exactly "Processing result...".
  Each of these events, and every event the loop yields on any trace, has both flags
  false.
\<close>

theorem stream_progress_events:
  "(msgs \<noteq> [] \<and> last msgs = AIMessage c (tc # rest)
      \<and> map_of tc ''name'' = Some (PStr ''calculator'') \<longrightarrow>
    fst (stream_loop (Some msgs # items)) =
      \<lparr>is_task_complete = False, require_user_input = False,
       content = ''Performing calculation...''\<rparr> # fst (stream_loop items))
   \<and> (msgs \<noteq> [] \<and> last msgs = AIMessage c (tc # rest)
      \<and> map_of tc ''name'' = Some (PStr ''get_greeting'') \<longrightarrow>
    fst (stream_loop (Some msgs # items)) =
      \<lparr>is_task_complete = False, require_user_input = False,
       content = ''Preparing greeting...''\<rparr> # fst (stream_loop items))
   \<and> (msgs \<noteq> [] \<and> last msgs = ToolMessage r n \<longrightarrow>
    fst (stream_loop (Some msgs # items)) =
      \<lparr>is_task_complete = False, require_user_input = False,
       content = ''Processing result...''\<rparr> # fst (stream_loop items))
   \<and> (\<forall>e \<in> set (fst (stream_loop trace)).
        \<not> is_task_complete e \<and> \<not> require_user_input e)"
  by (auto simp: dict_get_def progress_def split: prod.splits dest: stream_loop_flags)

text \<open>
  Instances of C6, on the states of a turn that first calls the calculator and then
  the greeting tool.
\<close>

theorem stream_progress_events_witness:
  "fst (stream_loop
      [Some [HumanMessage (Str ''What is 25 plus 17?''),
             AIMessage (Str [])
               [[(''name'', PStr ''calculator''),
                 (''args'', PDict [(''operation'', PStr ''add''), (''a'', PInt 25), (''b'', PInt 17)])]]]])
     = [\<lparr>is_task_complete = False, require_user_input = False,
         content = ''Performing calculation...''\<rparr>]
   \<and> fst (stream_loop
      [Some [HumanMessage (Str ''Say hello to Bob''),
             AIMessage (Str []) [[(''name'', PStr ''get_greeting''),
                                  (''args'', PDict [(''name'', PStr ''Bob'')])]]]])
     = [\<lparr>is_task_complete = False, require_user_input = False,
         content = ''Preparing greeting...''\<rparr>]
   \<and> fst (stream_loop
      [Some [HumanMessage (Str ''What is 25 plus 17?''), ToolMessage (Str ''42.0'') ''calculator'']])
     = [\<lparr>is_task_complete = False, require_user_input = False,
         content = ''Processing result...''\<rparr>]
   \<and> list_all (\<lambda>e. \<not> is_task_complete e \<and> \<not> require_user_input e)
       (fst (stream_loop
         [Some [HumanMessage (Str ''hi'')],
          Some [HumanMessage (Str ''hi''), AIMessage (Str []) [[(''name'', PStr ''get_greeting'')]]],
          Some [HumanMessage (Str ''hi''), ToolMessage (Str ''Hello friend!'') ''get_greeting'']]))"
  using
    stream_progress_events
      [of "[HumanMessage (Str ''What is 25 plus 17?''),
            AIMessage (Str [])
              [[(''name'', PStr ''calculator''),
                (''args'', PDict [(''operation'', PStr ''add''), (''a'', PInt 25), (''b'', PInt 17)])]]]"
          "Str []"
          "[(''name'', PStr ''calculator''),
            (''args'', PDict [(''operation'', PStr ''add''), (''a'', PInt 25), (''b'', PInt 17)])]"
          "[]" "[]"]
    stream_progress_events
      [of "[HumanMessage (Str ''Say hello to Bob''),
            AIMessage (Str []) [[(''name'', PStr ''get_greeting''),
                                 (''args'', PDict [(''name'', PStr ''Bob'')])]]]"
          "Str []"
          "[(''name'', PStr ''get_greeting''), (''args'', PDict [(''name'', PStr ''Bob'')])]"
          "[]" "[]"]
    stream_progress_events
      [of "[HumanMessage (Str ''What is 25 plus 17?''), ToolMessage (Str ''42.0'') ''calculator'']"
          _ _ _ "[]" "Str ''42.0''" "''calculator''"
          "[Some [HumanMessage (Str ''hi'')],
            Some [HumanMessage (Str ''hi''), AIMessage (Str []) [[(''name'', PStr ''get_greeting'')]]],
            Some [HumanMessage (Str ''hi''), ToolMessage (Str ''Hello friend!'') ''get_greeting'']]"]
  by (simp add: list_all_iff)

text \<open>
  C10. A step whose last message is an \<open>AIMessage\<close> with a non-empty tool-call list
  whose first tool call is named neither \<open>calculator\<close> nor \<open>get_greeting\<close> yields no
  event: the sequence continues with the events of the following steps.
\<close>

theorem stream_other_tool_no_event:
  assumes "msgs \<noteq> []"
    and "last msgs = AIMessage c (tc # rest)"
    and "map_of tc ''name'' \<noteq> Some (PStr ''calculator'')"
    and "map_of tc ''name'' \<noteq> Some (PStr ''get_greeting'')"
  shows "stream_step (last msgs) = []
         \<and> fst (stream_loop (Some msgs # items)) = fst (stream_loop items)"
  using assms by (auto simp: dict_get_def split: option.splits prod.splits)

text \<open>
  Instances of C10: a tool call named \<open>web_search\<close> (followed by a second call, to the
  calculator), and a tool call without a \<open>name\<close> entry.
\<close>

theorem stream_other_tool_no_event_witness:
  "fst (stream_loop
      [Some [HumanMessage (Str ''hi''),
             AIMessage (Str []) [[(''name'', PStr ''web_search'')], [(''name'', PStr ''calculator'')]]],
       Some [HumanMessage (Str ''hi''), ToolMessage (Str ''none'') ''web_search'']])
     = fst (stream_loop [Some [HumanMessage (Str ''hi''), ToolMessage (Str ''none'') ''web_search'']])
   \<and> stream_step (AIMessage (Str []) [[(''id'', PStr ''call_1'')]]) = []"
  using
    stream_other_tool_no_event
      [of "[HumanMessage (Str ''hi''),
            AIMessage (Str []) [[(''name'', PStr ''web_search'')], [(''name'', PStr ''calculator'')]]]"
          "Str []" "[(''name'', PStr ''web_search'')]" "[[(''name'', PStr ''calculator'')]]"
          "[Some [HumanMessage (Str ''hi''), ToolMessage (Str ''none'') ''web_search'']]"]
    stream_other_tool_no_event
      [of "[AIMessage (Str []) [[(''id'', PStr ''call_1'')]]]"
          "Str []" "[(''id'', PStr ''call_1'')]" "[]" "[]"]
  by simp

text \<open>
  The loop raises on a streamed state without messages, and then \<open>stream\<close> ends without
  the terminal record. The agent's graph never streams such a state: the input of the
  turn already holds the user's message.
\<close>

lemma stream_raises_without_messages:
  "stream [Some []] st = ([], Some IndexError)" "stream [None] st = ([], Some KeyError)"
  by (simp_all add: stream_def)

lemma stream_decomposed:
  assumes "\<forall>item \<in> set trace. \<exists>msgs. item = Some msgs \<and> msgs \<noteq> []"
  shows "stream trace st = (fst (stream_loop trace) @ [get_agent_response st], None)"
proof -
  from assms have "snd (stream_loop trace) = None"
    by (rule stream_loop_no_error)
  then show ?thesis
    by (cases "stream_loop trace") (simp add: stream_def)
qed

lemma terminal_not_intermediate:
  "get_agent_response st \<notin> set (fst (stream_loop trace))"
proof
  assume "get_agent_response st \<in> set (fst (stream_loop trace))"
  then have "\<not> is_task_complete (get_agent_response st)
             \<and> \<not> require_user_input (get_agent_response st)"
    by (rule stream_loop_flags)
  then show False
    using get_agent_response_flags [of st] by simp
qed

text \<open>
  C7. On every trace (a finite list of streamed states, each holding at least one
  message) \<open>stream\<close> finishes without raising; the events it yields form a non-empty
  finite list whose last element is the record of \<open>get_agent_response\<close>; every element
  before the last has both flags false; and the terminal record occurs exactly once in
  the list.
\<close>

theorem stream_terminal_record_last:
  assumes "\<forall>item \<in> set trace. \<exists>msgs. item = Some msgs \<and> msgs \<noteq> []"
  shows "snd (stream trace st) = None
         \<and> fst (stream trace st) \<noteq> []
         \<and> last (fst (stream trace st)) = get_agent_response st
         \<and> (\<forall>e \<in> set (butlast (fst (stream trace st))).
              \<not> is_task_complete e \<and> \<not> require_user_input e)
         \<and> count_list (fst (stream trace st)) (get_agent_response st) = 1"
proof -
  let ?inter = "fst (stream_loop trace)"
  have eq: "stream trace st = (?inter @ [get_agent_response st], None)"
    using assms by (rule stream_decomposed)
  have flags: "\<forall>e \<in> set ?inter. \<not> is_task_complete e \<and> \<not> require_user_input e"
    using stream_loop_flags by blast
  have "count_list ?inter (get_agent_response st) = 0"
    using terminal_not_intermediate by (simp add: count_list_0_iff)
  then have once: "count_list (?inter @ [get_agent_response st]) (get_agent_response st) = 1"
    by simp
  from eq flags once show ?thesis by simp
qed

text \<open>
  An instance of C7: the turn "What is 25 plus 17?", with a calculator call, its result
  and the final answer. Two progress events come first, the terminal record last.
\<close>

theorem stream_terminal_record_last_witness:
  "stream
     [Some [HumanMessage (Str ''What is 25 plus 17?'')],
      Some [HumanMessage (Str ''What is 25 plus 17?''),
            AIMessage (Str []) [[(''name'', PStr ''calculator'')]]],
      Some [HumanMessage (Str ''What is 25 plus 17?''),
            AIMessage (Str []) [[(''name'', PStr ''calculator'')]],
            ToolMessage (Str ''42.0'') ''calculator''],
      Some [HumanMessage (Str ''What is 25 plus 17?''),
            AIMessage (Str []) [[(''name'', PStr ''calculator'')]],
            ToolMessage (Str ''42.0'') ''calculator'',
            AIMessage (Str ''The sum is 42.0'') []]]
     (Some [HumanMessage (Str ''What is 25 plus 17?''),
            AIMessage (Str []) [[(''name'', PStr ''calculator'')]],
            ToolMessage (Str ''42.0'') ''calculator'',
            AIMessage (Str ''The sum is 42.0'') []])
   = ([\<lparr>is_task_complete = False, require_user_input = False,
         content = ''Performing calculation...''\<rparr>,
       \<lparr>is_task_complete = False, require_user_input = False,
         content = ''Processing result...''\<rparr>,
       \<lparr>is_task_complete = True, require_user_input = False, content = ''The sum is 42.0''\<rparr>],
      None)"
proof -
  let ?q = "HumanMessage (Str ''What is 25 plus 17?'')"
  let ?call = "AIMessage (Str []) [[(''name'', PStr ''calculator'')]]"
  let ?res = "ToolMessage (Str ''42.0'') ''calculator''"
  let ?ans = "AIMessage (Str ''The sum is 42.0'') []"
  let ?trace = "[Some [?q], Some [?q, ?call], Some [?q, ?call, ?res], Some [?q, ?call, ?res, ?ans]]"
  let ?st = "Some [?q, ?call, ?res, ?ans]"
  have wf: "\<forall>item \<in> set ?trace. \<exists>msgs. item = Some msgs \<and> msgs \<noteq> []"
    by simp
  have terminal: "get_agent_response ?st =
      \<lparr>is_task_complete = True, require_user_input = False, content = ''The sum is 42.0''\<rparr>"
    by code_simp
  have loop: "fst (stream_loop ?trace) = [progress ''Performing calculation...'', progress ''Processing result...'']"
    by (simp add: dict_get_def)
  have "snd (stream ?trace ?st) = None"
    and "last (fst (stream ?trace ?st)) = get_agent_response ?st"
    using stream_terminal_record_last [OF wf, of ?st] by blast+
  then show ?thesis
    using terminal loop by (simp add: stream_def progress_def split: prod.splits option.splits)
qed

section \<open>Properties of \<open>get_greeting\<close>\<close>

text \<open>
  C8. For every name, the string returned by \<open>get_greeting\<close> contains the name, begins
  with the greeting "Hello " and contains "Nice to meet you!"; called without an
  argument it returns the greeting for "friend".
\<close>

theorem get_greeting_contains_name:
  "sublist name (get_greeting (Some name))
   \<and> prefix ''Hello '' (get_greeting (Some name))
   \<and> sublist ''Nice to meet you!'' (get_greeting (Some name))
   \<and> get_greeting None = get_greeting (Some ''friend'')
   \<and> get_greeting None = ''Hello friend! Nice to meet you! '' @ waving_hand"
proof -
  have "get_greeting (Some name) = ''Hello '' @ name @ (''! Nice to meet you! '' @ waving_hand)"
    by (simp add: get_greeting_def)
  then have 1: "sublist name (get_greeting (Some name))"
    by (metis sublist_appendI)
  have "get_greeting (Some name) =
          (''Hello '' @ name @ ''! '') @ ''Nice to meet you!'' @ ('' '' @ waving_hand)"
    by (simp add: get_greeting_def)
  then have 2: "sublist ''Nice to meet you!'' (get_greeting (Some name))"
    by (metis sublist_appendI)
  have 3: "prefix ''Hello '' (get_greeting (Some name))"
    by (simp add: get_greeting_def)
  have 4: "get_greeting None = get_greeting (Some ''friend'')"
    and 5: "get_greeting None = ''Hello friend! Nice to meet you! '' @ waving_hand"
    by (simp_all add: get_greeting_def)
  from 1 2 3 4 5 show ?thesis by blast
qed

section \<open>The shapes of the terminal record\<close>

text \<open>
  C9. Whatever the session state, the record returned by \<open>get_agent_response\<close> has one
  of three shapes: the text of the final agent message marked complete, that text
  marked as requiring user input, or the fixed fallback record. Under every assignment
  of task statuses that calls the first shape \<open>completed\<close> and records that require user
  input \<open>input_required\<close>, the status of the returned record is never \<open>error\<close>.
\<close>

theorem get_agent_response_three_shapes:
  assumes "\<And>c. status_of \<lparr>is_task_complete = True, require_user_input = False, content = c\<rparr>
                 = completed"
    and "\<And>c. status_of \<lparr>is_task_complete = False, require_user_input = True, content = c\<rparr>
                 = input_required"
  shows "((\<exists>c tcs. last (get_messages st) = AIMessage (Str c) tcs
            \<and> get_agent_response st =
                \<lparr>is_task_complete = True, require_user_input = False, content = c\<rparr>)
          \<or> (\<exists>c tcs. last (get_messages st) = AIMessage (Str c) tcs
            \<and> get_agent_response st =
                \<lparr>is_task_complete = False, require_user_input = True, content = c\<rparr>)
          \<or> get_agent_response st =
                \<lparr>is_task_complete = False, require_user_input = True,
                 content = ''We are unable to process your request at the moment. Please try again.''\<rparr>)
         \<and> status_of (get_agent_response st) \<noteq> error"
proof -
  let ?fb = "\<lparr>is_task_complete = False, require_user_input = True,
      content = ''We are unable to process your request at the moment. Please try again.''\<rparr>"
  have shapes: "(\<exists>c tcs. last (get_messages st) = AIMessage (Str c) tcs
            \<and> get_agent_response st =
                \<lparr>is_task_complete = True, require_user_input = False, content = c\<rparr>)
          \<or> (\<exists>c tcs. last (get_messages st) = AIMessage (Str c) tcs
            \<and> get_agent_response st =
                \<lparr>is_task_complete = False, require_user_input = True, content = c\<rparr>)
          \<or> get_agent_response st = ?fb"
  proof (cases "get_messages st = []")
    case True
    then show ?thesis
      by (simp add: get_agent_response_def fallback_def fallback_text_def)
  next
    case False
    show ?thesis
    proof (cases "last (get_messages st)")
      case (AIMessage c tcs)
      with False show ?thesis
        by (cases c)
          (simp_all add: get_agent_response_def classify_text_def fallback_def fallback_text_def)
    qed (use False in \<open>simp_all add: get_agent_response_def fallback_def fallback_text_def\<close>)
  qed
  have "status_of (get_agent_response st) = completed
        \<or> status_of (get_agent_response st) = input_required"
    using shapes assms by metis
  then have "status_of (get_agent_response st) \<noteq> error"
    by auto
  with shapes show ?thesis by blast
qed

text \<open>
  An instance of C9, with the status read off the two flags: a completed answer, a
  question back to the user, and a session without messages.
\<close>

theorem get_agent_response_three_shapes_witness:
  "status_by_flags (get_agent_response (Some [AIMessage (Str ''The sum is 42.0'') []])) = completed
   \<and> status_by_flags (get_agent_response (Some [AIMessage (Str ''Which one?'') []])) = input_required
   \<and> status_by_flags (get_agent_response None) = input_required
   \<and> status_by_flags (get_agent_response (Some [AIMessage (Str ''The sum is 42.0'') []])) \<noteq> error
   \<and> status_by_flags (get_agent_response (Some [AIMessage (Str ''Which one?'') []])) \<noteq> error
   \<and> status_by_flags (get_agent_response None) \<noteq> error"
proof -
  have a: "\<And>c. status_by_flags \<lparr>is_task_complete = True, require_user_input = False, content = c\<rparr>
             = completed"
    and b: "\<And>c. status_by_flags \<lparr>is_task_complete = False, require_user_input = True, content = c\<rparr>
             = input_required"
    by (simp_all add: status_by_flags_def)
  have v: "get_agent_response (Some [AIMessage (Str ''The sum is 42.0'') []]) =
             \<lparr>is_task_complete = True, require_user_input = False, content = ''The sum is 42.0''\<rparr>"
    "get_agent_response (Some [AIMessage (Str ''Which one?'') []]) =
             \<lparr>is_task_complete = False, require_user_input = True, content = ''Which one?''\<rparr>"
    "get_agent_response None = fallback"
    by code_simp+
  show ?thesis
    using get_agent_response_three_shapes [of status_by_flags, OF a b]
    by (simp add: v a b fallback_def)
qed

end
